theory Spec2Isabelle
  imports Main "HOL-Library.Sublist"
begin

section \<open>JavaScript strings and arrays\<close>

text \<open>
  The source is TypeScript. A string is the sequence of its UTF-16 code units, and is
  modelled as a \<^typ>\<open>string\<close>: a \<^typ>\<open>char\<close> is a code unit from 0 to 255, the
  Latin-1 range, and a string with a code unit beyond it is not a value of the type.
  The library methods the source calls (\<^verbatim>\<open>toLowerCase\<close>, \<^verbatim>\<open>indexOf\<close>,
  \<^verbatim>\<open>split\<close>, \<^verbatim>\<open>join\<close>) are written out below.

  \<^verbatim>\<open>toLowerCase\<close> follows the Unicode case mapping. On the code units from 0 to 255
  it maps the 26 capital letters of ASCII and the 30 capital letters from U+00C0 to
  U+00DE (U+00D7, the multiplication sign, is not a letter) to the small letter 32
  places further on, and leaves every other code unit as it is; it maps one code unit
  to one, so the whole string is mapped unit by unit.
\<close>

definition upperCaseLetters :: string where
  "upperCaseLetters =
     ''ABCDEFGHIJKLMNOPQRSTUVWXYZ'' @
       [CHR 0xC0, CHR 0xC1, CHR 0xC2, CHR 0xC3, CHR 0xC4, CHR 0xC5, CHR 0xC6, CHR 0xC7,
        CHR 0xC8, CHR 0xC9, CHR 0xCA, CHR 0xCB, CHR 0xCC, CHR 0xCD, CHR 0xCE, CHR 0xCF,
        CHR 0xD0, CHR 0xD1, CHR 0xD2, CHR 0xD3, CHR 0xD4, CHR 0xD5, CHR 0xD6, CHR 0xD8,
        CHR 0xD9, CHR 0xDA, CHR 0xDB, CHR 0xDC, CHR 0xDD, CHR 0xDE]"

definition lowerCaseLetters :: string where
  "lowerCaseLetters =
     ''abcdefghijklmnopqrstuvwxyz'' @
       [CHR 0xE0, CHR 0xE1, CHR 0xE2, CHR 0xE3, CHR 0xE4, CHR 0xE5, CHR 0xE6, CHR 0xE7,
        CHR 0xE8, CHR 0xE9, CHR 0xEA, CHR 0xEB, CHR 0xEC, CHR 0xED, CHR 0xEE, CHR 0xEF,
        CHR 0xF0, CHR 0xF1, CHR 0xF2, CHR 0xF3, CHR 0xF4, CHR 0xF5, CHR 0xF6, CHR 0xF8,
        CHR 0xF9, CHR 0xFA, CHR 0xFB, CHR 0xFC, CHR 0xFD, CHR 0xFE]"

definition toLowerCaseChar :: "char \<Rightarrow> char" where
  "toLowerCaseChar c =
     (case map_of (zip upperCaseLetters lowerCaseLetters) c of
        Some l \<Rightarrow> l
      | None \<Rightarrow> c)"

definition String_toLowerCase :: "string \<Rightarrow> string" where
  "String_toLowerCase s = map toLowerCaseChar s"

text \<open>
  \<^verbatim>\<open>s.indexOf(searchString)\<close>: the first position at which \<open>searchString\<close> starts
  in \<open>s\<close>, or \<open>-1\<close>. The scan is over the remaining text, \<open>i\<close> is its position.
\<close>

fun indexOfFrom :: "string \<Rightarrow> string \<Rightarrow> int \<Rightarrow> int" where
  "indexOfFrom searchString [] i = (if searchString = [] then i else - 1)"
| "indexOfFrom searchString (c # cs) i =
     (if prefix searchString (c # cs) then i else indexOfFrom searchString cs (i + 1))"

definition String_indexOf :: "string \<Rightarrow> string \<Rightarrow> int" where
  "String_indexOf s searchString = indexOfFrom searchString s 0"

text \<open>
  \<^verbatim>\<open>s.split(separator)\<close>. With the empty separator the string is cut into its
  characters; otherwise \<open>split_loop\<close> scans the text, \<open>cur\<close> being the segment
  read so far.
\<close>

fun split_loop :: "string \<Rightarrow> string \<Rightarrow> string \<Rightarrow> string list" where
  "split_loop sep cur [] = [cur]"
| "split_loop sep cur (c # cs) =
     (if sep \<noteq> [] \<and> prefix sep (c # cs)
      then cur # split_loop sep [] (drop (length sep) (c # cs))
      else split_loop sep (cur @ [c]) cs)"

definition String_split :: "string \<Rightarrow> string \<Rightarrow> string list" where
  "String_split s separator =
     (if separator = [] then map (\<lambda>c. [c]) s else split_loop separator [] s)"

text \<open>\<^verbatim>\<open>xs.join(separator)\<close> on an array of strings.\<close>

fun Array_join :: "string list \<Rightarrow> string \<Rightarrow> string" where
  "Array_join [] separator = []"
| "Array_join [x] separator = x"
| "Array_join (x # y # ys) separator = x @ separator @ Array_join (y # ys) separator"

text \<open>\<^verbatim>\<open>xs[0]\<close>: \<open>None\<close> stands for \<^verbatim>\<open>undefined\<close>.\<close>

fun Array_first :: "'a list \<Rightarrow> 'a option" where
  "Array_first [] = None"
| "Array_first (x # xs) = Some x"

subsection \<open>The constants of SearchClause.tsx\<close>

definition FILTER_SEPARATOR :: string where
  "FILTER_SEPARATOR = '':''"

definition FILTER_VALUE_SEPARATOR :: string where
  "FILTER_VALUE_SEPARATOR = '',''"

definition NOT_PREFIX :: string where
  "NOT_PREFIX = ''-''"

definition matchPhrase :: "string \<Rightarrow> string \<Rightarrow> bool" where
  "matchPhrase phrase fullText =
     (String_indexOf (String_toLowerCase fullText) (String_toLowerCase phrase) > - 1)"

section \<open>Phrases (SearchClause.tsx)\<close>

text \<open>
  A study (\<^verbatim>\<open>CancerTreeNode\<close>) is read only through \<^verbatim>\<open>study[fieldName]\<close>, where
  \<open>fieldName\<close> ranges over the enumeration \<^verbatim>\<open>CancerTreeNodeFields\<close>, which is
  declared in another file: the type of field names is the parameter \<open>'f\<close>, and a
  study maps a field name to its string value, \<open>None\<close> when the attribute is absent.
  A value is truthy when it is a non-empty string.
\<close>

type_synonym 'f CancerTreeNode = "'f \<Rightarrow> string option"

record 'f DefaultPhrase_state =
  D_fields :: "'f list"
  D_textRepresentation :: string
  D_phrase :: string

record 'f ListPhrase_state =
  L_textRepresentation :: string
  L_fields :: "'f list"
  L_phraseList :: "string list"
  L_prefix :: "string option"

datatype 'f Phrase =
    DefaultPhrase "'f DefaultPhrase_state"
  | ListPhrase "'f ListPhrase_state"

text \<open>
  The two constructors, with the source's parameter order: each gives the state of the
  new object.
\<close>

definition new_DefaultPhrase :: "string \<Rightarrow> string \<Rightarrow> 'f list \<Rightarrow> 'f DefaultPhrase_state" where
  "new_DefaultPhrase phrase textRepresentation fields' =
     \<lparr>D_fields = fields', D_textRepresentation = textRepresentation, D_phrase = phrase\<rparr>"

definition new_ListPhrase :: "string \<Rightarrow> string \<Rightarrow> 'f list \<Rightarrow> 'f ListPhrase_state" where
  "new_ListPhrase phrase textRepresentation fields' =
     \<lparr>L_textRepresentation = textRepresentation, L_fields = fields',
      L_phraseList = String_split phrase FILTER_VALUE_SEPARATOR,
      L_prefix = Array_first (String_split textRepresentation FILTER_SEPARATOR)\<rparr>"

text \<open>The getters \<^verbatim>\<open>phrase\<close> and \<^verbatim>\<open>fields\<close>, and \<^verbatim>\<open>toString\<close>.\<close>

fun Phrase_phrase :: "'f Phrase \<Rightarrow> string" where
  "Phrase_phrase (DefaultPhrase d) = D_phrase d"
| "Phrase_phrase (ListPhrase l) = Array_join (L_phraseList l) FILTER_VALUE_SEPARATOR"

fun Phrase_fields :: "'f Phrase \<Rightarrow> 'f list" where
  "Phrase_fields (DefaultPhrase d) = D_fields d"
| "Phrase_fields (ListPhrase l) = L_fields l"

fun Phrase_toString :: "'f Phrase \<Rightarrow> string" where
  "Phrase_toString (DefaultPhrase d) = D_textRepresentation d"
| "Phrase_toString (ListPhrase l) = L_textRepresentation l"

fun isDefaultPhrase :: "'f Phrase \<Rightarrow> bool" where
  "isDefaultPhrase (DefaultPhrase d) = True"
| "isDefaultPhrase (ListPhrase l) = False"

text \<open>
  \<^verbatim>\<open>DefaultPhrase.match\<close>: the loop over the fields is a left fold whose state is
  \<open>anyFieldMatch\<close>.
\<close>

definition DefaultPhrase_fieldMatch ::
  "'f DefaultPhrase_state \<Rightarrow> 'f CancerTreeNode \<Rightarrow> 'f \<Rightarrow> bool" where
  "DefaultPhrase_fieldMatch this study fieldName =
     (case study fieldName of
        None \<Rightarrow> False
      | Some fieldValue \<Rightarrow>
          if fieldValue \<noteq> [] then matchPhrase (D_phrase this) fieldValue else False)"

definition DefaultPhrase_match :: "'f DefaultPhrase_state \<Rightarrow> 'f CancerTreeNode \<Rightarrow> bool" where
  "DefaultPhrase_match this study =
     foldl (\<lambda>anyFieldMatch fieldName.
              anyFieldMatch \<or> DefaultPhrase_fieldMatch this study fieldName)
       False (D_fields this)"

text \<open>
  \<^verbatim>\<open>ListPhrase.match\<close>: the inner loop runs once for every entry of the phrase
  list and assigns \<open>fieldMatch\<close> each time; its body tests \<^verbatim>\<open>this.phrase\<close>, the
  rejoined list, and does not read the loop variable.
\<close>

definition ListPhrase_fieldMatch ::
  "'f ListPhrase_state \<Rightarrow> 'f CancerTreeNode \<Rightarrow> 'f \<Rightarrow> bool" where
  "ListPhrase_fieldMatch this study fieldName =
     (case study fieldName of
        None \<Rightarrow> False
      | Some fieldValue \<Rightarrow>
          if fieldValue \<noteq> []
          then foldl (\<lambda>fieldMatch phrase.
                        matchPhrase (Phrase_phrase (ListPhrase this)) fieldValue)
                 False (L_phraseList this)
          else False)"

definition ListPhrase_match :: "'f ListPhrase_state \<Rightarrow> 'f CancerTreeNode \<Rightarrow> bool" where
  "ListPhrase_match this study =
     foldl (\<lambda>anyFieldMatch fieldName.
              anyFieldMatch \<or> ListPhrase_fieldMatch this study fieldName)
       False (L_fields this)"

fun Phrase_match :: "'f Phrase \<Rightarrow> 'f CancerTreeNode \<Rightarrow> bool" where
  "Phrase_match (DefaultPhrase d) study = DefaultPhrase_match d study"
| "Phrase_match (ListPhrase l) study = ListPhrase_match l study"

text \<open>
  \<^verbatim>\<open>equals\<close>. The argument may be \<^verbatim>\<open>null\<close> or \<^verbatim>\<open>undefined\<close> (\<open>None\<close>).
  \<^verbatim>\<open>DefaultPhrase.equals\<close> reads \<^verbatim>\<open>o.phrase\<close> and \<^verbatim>\<open>o.fields\<close>, which both
  classes have; an array is truthy, so \<^verbatim>\<open>!o.fields\<close> is false for every phrase, and
  \<^verbatim>\<open>!o.phrase\<close> holds exactly for the empty string. \<^verbatim>\<open>ListPhrase.equals\<close> reads
  the private \<^verbatim>\<open>o._phraseList\<close>, which a \<^verbatim>\<open>DefaultPhrase\<close> does not have.
  \<^verbatim>\<open>_.isEqual\<close> on two arrays of strings is equality of the lists.
\<close>

definition DefaultPhrase_equals :: "'f DefaultPhrase_state \<Rightarrow> 'f Phrase option \<Rightarrow> bool" where
  "DefaultPhrase_equals this other =
     (case other of
        None \<Rightarrow> False
      | Some ot \<Rightarrow>
          if Phrase_phrase ot = [] then False
          else if D_phrase this \<noteq> Phrase_phrase ot then False
          else D_fields this = Phrase_fields ot)"

definition ListPhrase_equals :: "'f ListPhrase_state \<Rightarrow> 'f Phrase option \<Rightarrow> bool" where
  "ListPhrase_equals this other =
     (case other of
        None \<Rightarrow> False
      | Some (DefaultPhrase d) \<Rightarrow> False
      | Some (ListPhrase ot) \<Rightarrow>
          if L_phraseList this \<noteq> L_phraseList ot then False
          else L_fields this = L_fields ot)"

fun Phrase_equals :: "'f Phrase \<Rightarrow> 'f Phrase option \<Rightarrow> bool" where
  "Phrase_equals (DefaultPhrase d) other = DefaultPhrase_equals d other"
| "Phrase_equals (ListPhrase l) other = ListPhrase_equals l other"

text \<open>
  The reading of \<^verbatim>\<open>ListPhrase.match\<close> in the specification, kept apart from the
  source's: the inner loop tests the entry it iterates over, and the flag keeps the
  result of the last one.
\<close>

definition spec_ListPhrase_fieldMatch_lastEntry ::
  "'f ListPhrase_state \<Rightarrow> 'f CancerTreeNode \<Rightarrow> 'f \<Rightarrow> bool" where
  "spec_ListPhrase_fieldMatch_lastEntry this study fieldName =
     (case study fieldName of
        None \<Rightarrow> False
      | Some fieldValue \<Rightarrow>
          if fieldValue \<noteq> []
          then foldl (\<lambda>fieldMatch phrase. matchPhrase phrase fieldValue)
                 False (L_phraseList this)
          else False)"

definition spec_ListPhrase_match_lastEntry ::
  "'f ListPhrase_state \<Rightarrow> 'f CancerTreeNode \<Rightarrow> bool" where
  "spec_ListPhrase_match_lastEntry this study =
     foldl (\<lambda>anyFieldMatch fieldName.
              anyFieldMatch \<or> spec_ListPhrase_fieldMatch_lastEntry this study fieldName)
       False (L_fields this)"

section \<open>Search clauses (SearchClause.tsx)\<close>

text \<open>
  A not-clause holds one phrase; its methods test \<^verbatim>\<open>this.phrase\<close> for
  truthiness, so the model lets it be absent (\<open>None\<close>). An and-clause holds an array
  of phrases. The argument of \<^verbatim>\<open>contains\<close> is \<^verbatim>\<open>null\<close>, a predicate or a phrase.
  Reading a property of \<^verbatim>\<open>null\<close> raises a \<^verbatim>\<open>TypeError\<close>.
\<close>

datatype 'f ISearchClause =
    NotSearchClause "'f Phrase option"
  | AndSearchClause "'f Phrase list"

datatype 'f match_arg =
    MatchNull
  | MatchFunction "'f Phrase option \<Rightarrow> bool"
  | MatchPhrase "'f Phrase"

datatype error = TypeError

fun isNot :: "'f ISearchClause \<Rightarrow> bool" where
  "isNot (NotSearchClause p) = True"
| "isNot (AndSearchClause ps) = False"

fun isAnd :: "'f ISearchClause \<Rightarrow> bool" where
  "isAnd (NotSearchClause p) = False"
| "isAnd (AndSearchClause ps) = True"

fun getPhrases :: "'f ISearchClause \<Rightarrow> 'f Phrase option list" where
  "getPhrases (NotSearchClause p) = [p]"
| "getPhrases (AndSearchClause ps) = map Some ps"

definition NotSearchClause_toString :: "'f Phrase option \<Rightarrow> string" where
  "NotSearchClause_toString phrase =
     (case phrase of
        Some p \<Rightarrow> NOT_PREFIX @ '' '' @ Phrase_toString p
      | None \<Rightarrow> [])"

definition AndSearchClause_toString :: "'f Phrase list \<Rightarrow> string" where
  "AndSearchClause_toString phrases =
     (if length phrases \<noteq> 0 then Array_join (map Phrase_toString phrases) '' '' else [])"

fun ISearchClause_toString :: "'f ISearchClause \<Rightarrow> string" where
  "ISearchClause_toString (NotSearchClause p) = NotSearchClause_toString p"
| "ISearchClause_toString (AndSearchClause ps) = AndSearchClause_toString ps"

definition NotSearchClause_contains ::
  "'f Phrase option \<Rightarrow> 'f match_arg \<Rightarrow> error + bool" where
  "NotSearchClause_contains phrase match =
     (case match of
        MatchNull \<Rightarrow> Inr (phrase = None)
      | MatchFunction f \<Rightarrow> Inr (f phrase)
      | MatchPhrase m \<Rightarrow>
          (case phrase of
             None \<Rightarrow> Inl TypeError
           | Some p \<Rightarrow> Inr (Phrase_equals p (Some m))))"

text \<open>The two loops of \<^verbatim>\<open>AndSearchClause.contains\<close> return at the first hit.\<close>

fun contains_loop :: "('f Phrase \<Rightarrow> bool) \<Rightarrow> 'f Phrase list \<Rightarrow> bool" where
  "contains_loop test [] = False"
| "contains_loop test (phrase # phrases) =
     (if test phrase then True else contains_loop test phrases)"

definition AndSearchClause_contains :: "'f Phrase list \<Rightarrow> 'f match_arg \<Rightarrow> bool" where
  "AndSearchClause_contains phrases match =
     (case match of
        MatchNull \<Rightarrow> length phrases = 0
      | MatchFunction f \<Rightarrow> contains_loop (\<lambda>phrase. f (Some phrase)) phrases
      | MatchPhrase m \<Rightarrow> contains_loop (\<lambda>phrase. Phrase_equals phrase (Some m)) phrases)"

fun ISearchClause_contains :: "'f ISearchClause \<Rightarrow> 'f match_arg \<Rightarrow> error + bool" where
  "ISearchClause_contains (NotSearchClause p) match = NotSearchClause_contains p match"
| "ISearchClause_contains (AndSearchClause ps) match = Inr (AndSearchClause_contains ps match)"

text \<open>
  \<^verbatim>\<open>NotSearchClause.equals\<close> passes \<^verbatim>\<open>this.phrase\<close> to \<^verbatim>\<open>other.contains\<close>: an
  absent phrase arrives there as \<^verbatim>\<open>null\<close>.
\<close>

fun as_match :: "'f Phrase option \<Rightarrow> 'f match_arg" where
  "as_match None = MatchNull"
| "as_match (Some p) = MatchPhrase p"

definition NotSearchClause_equals ::
  "'f Phrase option \<Rightarrow> 'f ISearchClause \<Rightarrow> error + bool" where
  "NotSearchClause_equals phrase other =
     (if isAnd other then Inr False else ISearchClause_contains other (as_match phrase))"

text \<open>
  \<^verbatim>\<open>AndSearchClause.equals\<close>: once \<^verbatim>\<open>other.isNot()\<close> is false, \<open>other\<close> is an
  and-clause, and \<^verbatim>\<open>other.contains\<close> is \<^verbatim>\<open>AndSearchClause.contains\<close>. The two
  loops share the flag \<open>containsAll\<close>; \<^verbatim>\<open>&&\<close> skips the call once it is false.
\<close>

definition AndSearchClause_equals :: "'f Phrase list \<Rightarrow> 'f ISearchClause \<Rightarrow> bool" where
  "AndSearchClause_equals phrases other =
     (case other of
        NotSearchClause p \<Rightarrow> False
      | AndSearchClause itemPhrases \<Rightarrow>
          (let containsAll =
                 foldl (\<lambda>containsAll itemPhrase.
                          containsAll \<and> AndSearchClause_contains itemPhrases (MatchPhrase itemPhrase))
                   True phrases
           in foldl (\<lambda>containsAll itemPhrase.
                       containsAll \<and> AndSearchClause_contains phrases (MatchPhrase itemPhrase))
                containsAll itemPhrases))"

fun ISearchClause_equals :: "'f ISearchClause \<Rightarrow> 'f ISearchClause \<Rightarrow> error + bool" where
  "ISearchClause_equals (NotSearchClause p) other = NotSearchClause_equals p other"
| "ISearchClause_equals (AndSearchClause ps) other = Inr (AndSearchClause_equals ps other)"

section \<open>The mutation assessor column formatter\<close>

record IMutationAssessorFormat =
  label :: string
  className :: string
  priority :: int

text \<open>
  \<^verbatim>\<open>MA_SCORE_MAP\<close> is an object literal, read with \<^verbatim>\<open>MA_SCORE_MAP[key]\<close>. Such a
  read gives the object's own property of that name; failing that, the property of
  that name of \<^verbatim>\<open>Object.prototype\<close>, which every object literal inherits from (a
  function or an object: truthy, and without \<^verbatim>\<open>label\<close>, \<^verbatim>\<open>className\<close> or
  \<^verbatim>\<open>priority\<close>); failing that, \<^verbatim>\<open>undefined\<close>.
\<close>

datatype 'a property = Undefined | Own 'a | Inherited

definition Object_prototype_properties :: "string list" where
  "Object_prototype_properties =
     [''constructor'', ''hasOwnProperty'', ''isPrototypeOf'', ''propertyIsEnumerable'',
      ''toLocaleString'', ''toString'', ''valueOf'', ''__proto__'',
      ''__defineGetter__'', ''__defineSetter__'', ''__lookupGetter__'', ''__lookupSetter__'']"

definition Object_get :: "(string \<times> 'a) list \<Rightarrow> string \<Rightarrow> 'a property" where
  "Object_get obj key =
     (case map_of obj key of
        Some v \<Rightarrow> Own v
      | None \<Rightarrow> if key \<in> set Object_prototype_properties then Inherited else Undefined)"

definition MA_SCORE_MAP :: "(string \<times> IMutationAssessorFormat) list" where
  "MA_SCORE_MAP =
     [(''h'', \<lparr>label = ''High'', className = ''oma-high'', priority = 4\<rparr>),
      (''m'', \<lparr>label = ''Medium'', className = ''oma-medium'', priority = 3\<rparr>),
      (''l'', \<lparr>label = ''Low'', className = ''oma-low'', priority = 2\<rparr>),
      (''n'', \<lparr>label = ''Neutral'', className = ''oma-neutral'', priority = 1\<rparr>),
      (''na'', \<lparr>label = ''NA'', className = ''oma-na'', priority = 0\<rparr>)]"

text \<open>
  The row data. The numbers (\<^verbatim>\<open>fisValue\<close>, \<^verbatim>\<open>score\<close>) are of a type \<open>'n\<close> that
  the functions below only pass on. A field that is absent or \<^verbatim>\<open>undefined\<close> is
  \<open>None\<close>.
\<close>

record 'n Mutation =
  functionalImpactScore :: "string option"
  fisValue :: "'n option"
  linkPdb :: "string option"
  linkMsa :: "string option"
  linkXvar :: "string option"

record 'n maData =
  impact :: "string option"
  score :: "'n option"
  pdb :: "string option"
  msa :: "string option"
  xVar :: "string option"

record 'n IColumnFormatterData =
  columnData :: "'n maData option"
  rowData :: "'n Mutation list option"

definition empty_maData :: "'n maData" where
  "empty_maData = \<lparr>impact = None, score = None, pdb = None, msa = None, xVar = None\<rparr>"

definition getData :: "'n IColumnFormatterData \<Rightarrow> 'n maData" where
  "getData data =
     (case columnData data of
        Some cd \<Rightarrow> cd
      | None \<Rightarrow>
          (case rowData data of
             Some mutations \<Rightarrow>
               (case mutations of
                  m # ms \<Rightarrow>
                    \<lparr>impact = functionalImpactScore m, score = fisValue m,
                     pdb = linkPdb m, msa = linkMsa m, xVar = linkXvar m\<rparr>
                | [] \<Rightarrow> empty_maData)
           | None \<Rightarrow> empty_maData))"

definition getMapEntry :: "'n IColumnFormatterData \<Rightarrow> IMutationAssessorFormat property" where
  "getMapEntry data =
     (case impact (getData data) of
        Some i \<Rightarrow> if i \<noteq> [] then Object_get MA_SCORE_MAP (String_toLowerCase i) else Undefined
      | None \<Rightarrow> Undefined)"

definition getTextValue :: "'n IColumnFormatterData \<Rightarrow> string" where
  "getTextValue data =
     (case impact (getData data) of
        Some i \<Rightarrow> if i \<noteq> [] then i else []
      | None \<Rightarrow> [])"

text \<open>
  The three readers of the entry. Their results are \<open>None\<close> where the JavaScript
  value is \<^verbatim>\<open>undefined\<close>: a property that the truthy entry does not have.
\<close>

definition getDisplayValue :: "'n IColumnFormatterData \<Rightarrow> string option" where
  "getDisplayValue data =
     (case getMapEntry data of
        Own entry \<Rightarrow> Some (label entry)
      | Inherited \<Rightarrow> None
      | Undefined \<Rightarrow> Some (getTextValue data))"

definition getScoreClassName :: "'n IColumnFormatterData \<Rightarrow> string option" where
  "getScoreClassName data =
     (case getMapEntry data of
        Own v \<Rightarrow> Some (className v)
      | Inherited \<Rightarrow> None
      | Undefined \<Rightarrow> Some [])"

text \<open>The priority that \<^verbatim>\<open>sortFunction\<close> computes for each of its two rows.\<close>

definition sortPriority :: "'n IColumnFormatterData \<Rightarrow> int option" where
  "sortPriority data =
     (case getMapEntry data of
        Own aFormat \<Rightarrow> Some (priority aFormat)
      | Inherited \<Rightarrow> None
      | Undefined \<Rightarrow> Some (- 1))"

section \<open>The specification's case-insensitive containment\<close>



section \<open>Facts about the string functions\<close>

lemma indexOfFrom_found: "0 \<le> i \<Longrightarrow> (indexOfFrom p s i > - 1) = sublist p s"
proof (induction s arbitrary: i)
  case Nil
  then show ?case by simp
next
  case (Cons c cs)
  have "0 \<le> i + 1" using Cons.prems by simp
  then have "(indexOfFrom p cs (i + 1) > - 1) = sublist p cs" by (rule Cons.IH)
  then show ?case using Cons.prems by (simp add: sublist_Cons_right)
qed

lemma matchPhrase_sublist:
  "matchPhrase phrase fullText =
     sublist (String_toLowerCase phrase) (String_toLowerCase fullText)"
  by (simp add: matchPhrase_def String_indexOf_def indexOfFrom_found)

lemma split_loop_not_Nil: "split_loop sep cur rest \<noteq> []"
  by (induction sep cur rest rule: split_loop.induct) auto

lemma Array_join_Cons: "xs \<noteq> [] \<Longrightarrow> Array_join (x # xs) sep = x @ sep @ Array_join xs sep"
  by (cases xs) auto

lemma join_split_loop: "Array_join (split_loop sep cur rest) sep = cur @ rest"
proof (induction sep cur rest rule: split_loop.induct)
  case (1 sep cur)
  show ?case by simp
next
  case (2 sep cur c cs)
  show ?case
  proof (cases "sep \<noteq> [] \<and> prefix sep (c # cs)")
    case True
    then have cut: "sep @ drop (length sep) (c # cs) = c # cs"
      by (metis append_eq_conv_conj prefix_def)
    have step: "split_loop sep cur (c # cs)
                  = cur # split_loop sep [] (drop (length sep) (c # cs))"
      using True by simp
    have "Array_join (split_loop sep [] (drop (length sep) (c # cs))) sep
            = drop (length sep) (c # cs)"
      using 2(1) True by simp
    then have "Array_join (split_loop sep cur (c # cs)) sep
                 = cur @ sep @ drop (length sep) (c # cs)"
      unfolding step by (simp only: Array_join_Cons [OF split_loop_not_Nil])
    then show ?thesis by (simp only: cut)
  next
    case False
    then show ?thesis using 2(2) by auto
  qed
qed

lemma join_split: "Array_join (String_split s sep) sep = s"
proof (cases "sep = []")
  case True
  have "Array_join (map (\<lambda>c. [c]) s) [] = s"
    by (induction s rule: induct_list012) auto
  then show ?thesis using True by (simp add: String_split_def)
next
  case False
  then show ?thesis by (simp add: String_split_def join_split_loop)
qed

lemma String_split_not_Nil: "sep \<noteq> [] \<Longrightarrow> String_split s sep \<noteq> []"
  by (simp add: String_split_def split_loop_not_Nil)

lemma split_loop_first:
  "\<exists>ys. split_loop [s] cur rest = (cur @ takeWhile (\<lambda>c. c \<noteq> s) rest) # ys"
proof (induction rest arbitrary: cur)
  case Nil
  show ?case by simp
next
  case (Cons a rest)
  show ?case using Cons [of "cur @ [a]"] by auto
qed

lemma String_split_first:
  "\<exists>ys. String_split t [s] = takeWhile (\<lambda>c. c \<noteq> s) t # ys"
  using split_loop_first [of s "[]" t] by (simp add: String_split_def)



lemma letters_length: "length upperCaseLetters = length lowerCaseLetters"
  by (simp add: upperCaseLetters_def lowerCaseLetters_def)

lemma letters_disjoint: "set upperCaseLetters \<inter> set lowerCaseLetters = {}"
  by (simp add: upperCaseLetters_def lowerCaseLetters_def)









lemma toLowerCaseChar_not_capital: "toLowerCaseChar c \<notin> set upperCaseLetters"
proof (cases "map_of (zip upperCaseLetters lowerCaseLetters) c")
  case None
  have "fst ` set (zip upperCaseLetters lowerCaseLetters) = set upperCaseLetters"
    using letters_length by (metis map_fst_zip set_map)
  then have "c \<notin> set upperCaseLetters" using None by (simp add: map_of_eq_None_iff)
  then show ?thesis using None by (simp add: toLowerCaseChar_def)
next
  case (Some l)
  then have "(c, l) \<in> set (zip upperCaseLetters lowerCaseLetters)" by (rule map_of_SomeD)
  then have "l \<in> set lowerCaseLetters" by (rule set_zip_rightD)
  then have "l \<notin> set upperCaseLetters" using letters_disjoint by blast
  then show ?thesis using Some by (simp add: toLowerCaseChar_def)
qed

lemma toLowerCaseChar_not_upper: "toLowerCaseChar c \<notin> set ''ABCDEFGHIJKLMNOPQRSTUVWXYZ''"
proof -
  have "set ''ABCDEFGHIJKLMNOPQRSTUVWXYZ'' \<subseteq> set upperCaseLetters"
    by (simp add: upperCaseLetters_def)
  then show ?thesis using toLowerCaseChar_not_capital [of c] by blast
qed

lemma String_toLowerCase_Nil: "String_toLowerCase i = [] \<longleftrightarrow> i = []"
  by (simp add: String_toLowerCase_def)

text \<open>The equations that evaluate the string functions on a literal.\<close>

lemmas eval_strings = matchPhrase_def String_indexOf_def String_toLowerCase_def
  toLowerCaseChar_def upperCaseLetters_def lowerCaseLetters_def String_split_def FILTER_SEPARATOR_def FILTER_VALUE_SEPARATOR_def
  NOT_PREFIX_def

section \<open>Facts about the loops\<close>

lemma foldl_or: "foldl (\<lambda>acc x. acc \<or> P x) b xs = (b \<or> (\<exists>x\<in>set xs. P x))"
  by (induction xs arbitrary: b) auto

lemma foldl_and: "foldl (\<lambda>acc x. acc \<and> P x) b xs = (b \<and> list_all P xs)"
  by (induction xs arbitrary: b) auto

text \<open>A loop that assigns its flag in every round leaves the value of the last round.\<close>

lemma foldl_overwrite: "foldl (\<lambda>acc x. f x) b xs = (if xs = [] then b else f (last xs))"
  by (induction xs arbitrary: b) auto

lemma contains_loop_ex: "contains_loop test ps = (\<exists>p\<in>set ps. test p)"
  by (induction ps) auto

lemma DefaultPhrase_fieldMatch_iff:
  "DefaultPhrase_fieldMatch this study fieldName =
     (\<exists>fieldValue. study fieldName = Some fieldValue \<and> fieldValue \<noteq> [] \<and>
        sublist (String_toLowerCase (D_phrase this)) (String_toLowerCase fieldValue))"
  by (auto simp: DefaultPhrase_fieldMatch_def matchPhrase_sublist split: option.splits)

lemma ListPhrase_fieldMatch_iff:
  "ListPhrase_fieldMatch this study fieldName =
     (\<exists>fieldValue. study fieldName = Some fieldValue \<and> fieldValue \<noteq> [] \<and>
        L_phraseList this \<noteq> [] \<and>
        matchPhrase (Array_join (L_phraseList this) FILTER_VALUE_SEPARATOR) fieldValue)"
  by (auto simp: ListPhrase_fieldMatch_def foldl_overwrite split: option.splits)

lemmas eval_phrase = new_DefaultPhrase_def new_ListPhrase_def DefaultPhrase_equals_def
  ListPhrase_equals_def

lemma AndSearchClause_contains_phrase:
  "AndSearchClause_contains ps (MatchPhrase m) = (\<exists>p\<in>set ps. Phrase_equals p (Some m))"
  by (simp add: AndSearchClause_contains_def contains_loop_ex)

lemma AndSearchClause_equals_iff:
  "AndSearchClause_equals ps (AndSearchClause qs) \<longleftrightarrow>
     (\<forall>p\<in>set ps. AndSearchClause_contains qs (MatchPhrase p)) \<and>
     (\<forall>q\<in>set qs. AndSearchClause_contains ps (MatchPhrase q))"
  by (simp add: AndSearchClause_equals_def foldl_and list_all_iff)

section \<open>Matching a study\<close>



text \<open>
  Claim C1, at the input where the code leaves it. The list phrase \<^verbatim>\<open>a,b\<close> is on
  the field \<^verbatim>\<open>tag\<close>, and the study's tag is \<^verbatim>\<open>b\<close>. The last entry of the list,
  \<^verbatim>\<open>b\<close>, is contained in the value, so the flag of the field as the claim describes
  it is true. The code answers false: the body of the inner loop tests
  \<^verbatim>\<open>this.phrase\<close>, the rejoined list \<^verbatim>\<open>a,b\<close>, and does not read its loop variable.
\<close>

theorem ListPhrase_match_not_last_entry:
  "spec_ListPhrase_match_lastEntry (new_ListPhrase ''a,b'' ''tag:a,b'' [''tag''])
      [''tag'' \<mapsto> ''b'']
   \<and> \<not> ListPhrase_match (new_ListPhrase ''a,b'' ''tag:a,b'' [''tag'']) [''tag'' \<mapsto> ''b'']"
  by (simp add: new_ListPhrase_def ListPhrase_match_def ListPhrase_fieldMatch_def
      spec_ListPhrase_match_lastEntry_def spec_ListPhrase_fieldMatch_lastEntry_def eval_strings)

text \<open>
  What the loops of \<^verbatim>\<open>ListPhrase.match\<close> compute. For a field whose value is present
  and non-empty the test runs once for every entry of the phrase list, each time on
  the whole rejoined phrase, so the flag of the field ends as the result of that one
  test (as false when the list has no entry); the flags of the fields are combined
  with OR.
\<close>

theorem ListPhrase_match_tests_joined_phrase:
  "ListPhrase_fieldMatch this study fieldName =
     (\<exists>fieldValue. study fieldName = Some fieldValue \<and> fieldValue \<noteq> [] \<and>
        L_phraseList this \<noteq> [] \<and>
        matchPhrase (Array_join (L_phraseList this) FILTER_VALUE_SEPARATOR) fieldValue)
   \<and> ListPhrase_match this study =
     (\<exists>fieldName\<in>set (L_fields this). ListPhrase_fieldMatch this study fieldName)"
  by (simp add: ListPhrase_match_def foldl_or ListPhrase_fieldMatch_iff)

text \<open>
  The list phrase \<^verbatim>\<open>a,b\<close> on the field \<^verbatim>\<open>tag\<close> matches a study whose tag contains
  the text \<^verbatim>\<open>a,b\<close>.
\<close>

theorem ListPhrase_match_tests_joined_phrase_witness:
  "ListPhrase_match (new_ListPhrase ''a,b'' ''tag:a,b'' [''tag'']) [''tag'' \<mapsto> ''xA,Bx'']"
  using ListPhrase_match_tests_joined_phrase
    [of "new_ListPhrase ''a,b'' ''tag:a,b'' [''tag'']" "[''tag'' \<mapsto> ''xA,Bx'']" "''tag''"]
  by (simp add: new_ListPhrase_def eval_strings)

text \<open>
  Claim C2. A list phrase built by the constructor matches a study exactly when the
  single-value phrase does whose phrase is the list rejoined with a comma, with the
  same text representation and fields; the rejoined list is the constructor's
  argument again, so the entries of the list have no part in the result.
\<close>

theorem ListPhrase_match_eq_DefaultPhrase_match:
  "ListPhrase_match (new_ListPhrase phrase textRepresentation fields') study
     = DefaultPhrase_match
         (new_DefaultPhrase
            (Phrase_phrase (ListPhrase (new_ListPhrase phrase textRepresentation fields')))
            textRepresentation fields') study
   \<and> ListPhrase_match (new_ListPhrase phrase textRepresentation fields') study
     = DefaultPhrase_match (new_DefaultPhrase phrase textRepresentation fields') study"
proof -
  have entries: "L_phraseList (new_ListPhrase phrase textRepresentation fields') \<noteq> []"
    by (simp add: new_ListPhrase_def String_split_not_Nil FILTER_VALUE_SEPARATOR_def)
  have rejoined:
    "Phrase_phrase (ListPhrase (new_ListPhrase phrase textRepresentation fields')) = phrase"
    by (simp add: new_ListPhrase_def join_split)
  have "ListPhrase_match (new_ListPhrase phrase textRepresentation fields') study
          = DefaultPhrase_match (new_DefaultPhrase phrase textRepresentation fields') study"
    using entries rejoined
    by (simp add: ListPhrase_match_def DefaultPhrase_match_def foldl_or
        ListPhrase_fieldMatch_iff DefaultPhrase_fieldMatch_iff matchPhrase_sublist
        new_ListPhrase_def new_DefaultPhrase_def)
  then show ?thesis by (simp only: rejoined)
qed

theorem ListPhrase_match_eq_DefaultPhrase_match_witness:
  "ListPhrase_match (new_ListPhrase ''a,b'' ''tag:a,b'' [''tag'']) [''tag'' \<mapsto> ''b'']
     = DefaultPhrase_match (new_DefaultPhrase ''a,b'' ''tag:a,b'' [''tag'']) [''tag'' \<mapsto> ''b'']
   \<and> \<not> DefaultPhrase_match (new_DefaultPhrase ''a,b'' ''tag:a,b'' [''tag''])
          [''tag'' \<mapsto> ''b'']"
proof -
  have "\<not> DefaultPhrase_match (new_DefaultPhrase ''a,b'' ''tag:a,b'' [''tag''])
          [''tag'' \<mapsto> ''b'']"
    by (simp add: new_DefaultPhrase_def DefaultPhrase_match_def DefaultPhrase_fieldMatch_def
        eval_strings)
  then show ?thesis
    using ListPhrase_match_eq_DefaultPhrase_match
      [of "''a,b''" "''tag:a,b''" "[''tag'']" "[''tag'' \<mapsto> ''b'']"]
    by blast
qed

section \<open>Equality of phrases\<close>

text \<open>
  Claim C3, at the input where the code leaves it. A single-value phrase \<^verbatim>\<open>a\<close> and a
  list phrase \<^verbatim>\<open>a\<close> on the same field are of two classes, so \<^verbatim>\<open>equals\<close> is false
  by the claim. The code answers true: \<^verbatim>\<open>DefaultPhrase.equals\<close> tests the class of
  its argument by reading \<^verbatim>\<open>o.phrase\<close> and \<^verbatim>\<open>o.fields\<close>, and a list phrase has
  both.
\<close>

theorem DefaultPhrase_equals_ListPhrase_counterexample:
  "\<not> (DefaultPhrase_equals (new_DefaultPhrase ''a'' ''name:a'' [''name''])
          (Some (ListPhrase (new_ListPhrase ''a'' ''name:a'' [''name''])))
        \<longleftrightarrow>
          isDefaultPhrase (ListPhrase (new_ListPhrase ''a'' ''name:a'' [''name'']))
          \<and> D_phrase (new_DefaultPhrase ''a'' ''name:a'' [''name''])
              = Phrase_phrase (ListPhrase (new_ListPhrase ''a'' ''name:a'' [''name'']))
          \<and> D_fields (new_DefaultPhrase ''a'' ''name:a'' [''name''])
              = Phrase_fields (ListPhrase (new_ListPhrase ''a'' ''name:a'' [''name''])))"
  by (simp add: eval_phrase eval_strings)

text \<open>
  The other way round the answer is false for every pair: \<^verbatim>\<open>ListPhrase.equals\<close>
  reads \<^verbatim>\<open>o._phraseList\<close>, which no single-value phrase has.
\<close>

lemma ListPhrase_equals_DefaultPhrase: "\<not> ListPhrase_equals l (Some (DefaultPhrase d))"
  by (simp add: ListPhrase_equals_def)

text \<open>
  What \<^verbatim>\<open>DefaultPhrase.equals\<close> computes on a phrase \<open>q\<close> of either class whose
  phrase string is not empty: whether the phrase strings are identical (for a list
  phrase \<open>q\<close>, its entries rejoined with a comma) and the fields are the same
  sequence.
\<close>

theorem DefaultPhrase_equals_iff:
  "Phrase_phrase q \<noteq> [] \<Longrightarrow>
     DefaultPhrase_equals p (Some q) \<longleftrightarrow>
       (D_phrase p = Phrase_phrase q \<and> D_fields p = Phrase_fields q)"
  by (simp add: DefaultPhrase_equals_def)

text \<open>
  The phrase \<^verbatim>\<open>lung\<close> equals a phrase built from the same arguments, and the phrase
  \<^verbatim>\<open>Lung\<close> does not equal it: the comparison is case-sensitive.
\<close>

theorem DefaultPhrase_equals_iff_witness:
  "Phrase_phrase (DefaultPhrase (new_DefaultPhrase ''lung'' ''type:lung'' [''type''])) \<noteq> []
   \<and> DefaultPhrase_equals (new_DefaultPhrase ''lung'' ''type:lung'' [''type''])
        (Some (DefaultPhrase (new_DefaultPhrase ''lung'' ''type:lung'' [''type''])))
   \<and> \<not> DefaultPhrase_equals (new_DefaultPhrase ''Lung'' ''type:lung'' [''type''])
        (Some (DefaultPhrase (new_DefaultPhrase ''lung'' ''type:lung'' [''type''])))"
  using DefaultPhrase_equals_iff
      [of "DefaultPhrase (new_DefaultPhrase ''lung'' ''type:lung'' [''type''])"
          "new_DefaultPhrase ''lung'' ''type:lung'' [''type'']"]
    DefaultPhrase_equals_iff
      [of "DefaultPhrase (new_DefaultPhrase ''lung'' ''type:lung'' [''type''])"
          "new_DefaultPhrase ''Lung'' ''type:lung'' [''type'']"]
  by (simp add: new_DefaultPhrase_def)

text \<open>
  Claim C4, at the input where the code leaves it. A single-value phrase whose phrase
  string is empty does not equal itself: \<^verbatim>\<open>!o.phrase\<close> holds for the empty string, and
  \<^verbatim>\<open>equals\<close> returns false there. The list phrase built from the same arguments does
  equal itself.
\<close>

theorem DefaultPhrase_equals_empty_phrase:
  "Phrase_equals (DefaultPhrase (new_DefaultPhrase '''' '''' ([] :: string list)))
     (Some (DefaultPhrase (new_DefaultPhrase '''' '''' []))) = False
   \<and> Phrase_equals (ListPhrase (new_ListPhrase '''' '''' ([] :: string list)))
     (Some (ListPhrase (new_ListPhrase '''' '''' []))) = True"
  by (simp add: eval_phrase)

text \<open>
  What holds of claim C4 on the code: a list phrase equals itself, a single-value
  phrase equals itself when its phrase string is not empty, and no phrase equals
  \<^verbatim>\<open>null\<close> or \<^verbatim>\<open>undefined\<close>; the call returns false and raises nothing.
\<close>

theorem Phrase_equals_reflexive_nonempty:
  "((isDefaultPhrase P \<longrightarrow> Phrase_phrase P \<noteq> []) \<longrightarrow> Phrase_equals P (Some P))
   \<and> \<not> Phrase_equals P None"
  by (cases P) (auto simp: eval_phrase)

theorem Phrase_equals_reflexive_nonempty_witness:
  "Phrase_equals (DefaultPhrase (new_DefaultPhrase ''lung'' ''type:lung'' [''type'']))
     (Some (DefaultPhrase (new_DefaultPhrase ''lung'' ''type:lung'' [''type''])))
   \<and> Phrase_equals (ListPhrase (new_ListPhrase '''' ''tag:'' [''tag'']))
     (Some (ListPhrase (new_ListPhrase '''' ''tag:'' [''tag''])))
   \<and> \<not> Phrase_equals (DefaultPhrase (new_DefaultPhrase ''lung'' ''type:lung'' [''type''])) None"
  using Phrase_equals_reflexive_nonempty
      [of "DefaultPhrase (new_DefaultPhrase ''lung'' ''type:lung'' [''type''])"]
    Phrase_equals_reflexive_nonempty [of "ListPhrase (new_ListPhrase '''' ''tag:'' [''tag''])"]
  by (simp add: new_DefaultPhrase_def)

section \<open>The list phrase's constructor\<close>

text \<open>
  Claim C8. The constructor of a list phrase sets the phrase list to the argument split
  at the commas, and the prefix to the first segment of the text representation split
  at the colons, which is the text before the first colon and the whole text when it
  has none; the getter \<^verbatim>\<open>phrase\<close> rejoins the list with commas and gives the
  constructor's argument back, for every argument.
\<close>

theorem new_ListPhrase_parts:
  "L_phraseList (new_ListPhrase x textRepresentation fields') = String_split x '',''
   \<and> L_prefix (new_ListPhrase x textRepresentation fields')
       = Array_first (String_split textRepresentation '':'')
   \<and> L_prefix (new_ListPhrase x textRepresentation fields')
       = Some (takeWhile (\<lambda>c. c \<noteq> CHR '':'') textRepresentation)
   \<and> (CHR '':'' \<notin> set textRepresentation \<longrightarrow>
        L_prefix (new_ListPhrase x textRepresentation fields') = Some textRepresentation)
   \<and> Phrase_phrase (ListPhrase (new_ListPhrase x textRepresentation fields')) = x"
proof -
  obtain ys where "String_split textRepresentation '':''
      = takeWhile (\<lambda>c. c \<noteq> CHR '':'') textRepresentation # ys"
    using String_split_first by blast
  then show ?thesis
    by (auto simp: new_ListPhrase_def FILTER_SEPARATOR_def FILTER_VALUE_SEPARATOR_def join_split)
qed

text \<open>
  The list phrase \<^verbatim>\<open>a,b\<close> with the text \<^verbatim>\<open>tag:a,b\<close> has the entries \<^verbatim>\<open>a\<close> and
  \<^verbatim>\<open>b\<close> and the prefix \<^verbatim>\<open>tag\<close>; with the text \<^verbatim>\<open>lung\<close>, which has no colon, the
  prefix is \<^verbatim>\<open>lung\<close>.
\<close>

theorem new_ListPhrase_parts_witness:
  "L_phraseList (new_ListPhrase ''a,b'' ''tag:a,b'' [''tag'']) = [''a'', ''b'']
   \<and> L_prefix (new_ListPhrase ''a,b'' ''tag:a,b'' [''tag'']) = Some ''tag''
   \<and> L_prefix (new_ListPhrase ''a,b'' ''lung'' [''tag'']) = Some ''lung''
   \<and> Phrase_phrase (ListPhrase (new_ListPhrase ''a,b'' ''tag:a,b'' [''tag''])) = ''a,b''"
  using new_ListPhrase_parts [of "''a,b''" "''tag:a,b''" "[''tag'']"]
    new_ListPhrase_parts [of "''a,b''" "''lung''" "[''tag'']"]
  by (simp add: String_split_def FILTER_VALUE_SEPARATOR_def)

section \<open>Search clauses\<close>

text \<open>
  Claim C9. A not-clause prints as \<^verbatim>\<open>- \<close> followed by the text of its phrase, and
  as the empty string when it has no phrase. An and-clause prints the texts of its
  phrases in their order with one space between two neighbours: nothing for no
  phrase, the phrase's text for one phrase.
\<close>

theorem clause_toString:
  "NotSearchClause_toString (Some p) = ''- '' @ Phrase_toString p
   \<and> NotSearchClause_toString (None :: 'f Phrase option) = []
   \<and> AndSearchClause_toString ps = Array_join (map Phrase_toString ps) '' ''
   \<and> AndSearchClause_toString ([] :: 'f Phrase list) = []
   \<and> AndSearchClause_toString [p] = Phrase_toString p
   \<and> AndSearchClause_toString (p # q # ps)
        = Phrase_toString p @ '' '' @ AndSearchClause_toString (q # ps)"
  by (simp add: NotSearchClause_toString_def AndSearchClause_toString_def NOT_PREFIX_def)

theorem clause_toString_witness:
  "NotSearchClause_toString
     (Some (DefaultPhrase (new_DefaultPhrase ''lung'' ''type:lung'' [''type''])))
     = ''- type:lung''
   \<and> AndSearchClause_toString
       [DefaultPhrase (new_DefaultPhrase ''lung'' ''type:lung'' [''type'']),
        DefaultPhrase (new_DefaultPhrase ''TCGA'' ''study:TCGA'' [''study''])]
     = ''type:lung study:TCGA''"
  using clause_toString
      [of "DefaultPhrase (new_DefaultPhrase ''lung'' ''type:lung'' [''type''])" "[]"
          "DefaultPhrase (new_DefaultPhrase ''TCGA'' ''study:TCGA'' [''study''])"]
  by (simp add: new_DefaultPhrase_def AndSearchClause_toString_def NotSearchClause_toString_def
      NOT_PREFIX_def)

text \<open>
  Claim C6. \<^verbatim>\<open>n.equals(c)\<close> of a not-clause \<open>n\<close> is false for every and-clause \<open>c\<close>,
  and for a not-clause \<open>c\<close> it is the result of \<^verbatim>\<open>c.contains\<close> on the phrase that
  \<open>n\<close> wraps: with both phrases present, whether the phrase of \<open>c\<close> equals that of
  \<open>n\<close>. (Where \<open>n\<close> has a phrase and \<open>c\<close> has none, the call to \<^verbatim>\<open>contains\<close> raises,
  and so does \<^verbatim>\<open>equals\<close>.)
\<close>

theorem NotSearchClause_equals_contains:
  "NotSearchClause_equals p (AndSearchClause qs) = Inr False
   \<and> NotSearchClause_equals p (NotSearchClause q)
        = ISearchClause_contains (NotSearchClause q) (as_match p)
   \<and> NotSearchClause_equals (Some m) (NotSearchClause (Some r)) = Inr (Phrase_equals r (Some m))
   \<and> NotSearchClause_equals (Some m) (NotSearchClause None) = Inl TypeError
   \<and> NotSearchClause_equals None (NotSearchClause q) = Inr (q = None)"
  by (simp add: NotSearchClause_equals_def NotSearchClause_contains_def)

text \<open>
  The equality need not hold both ways: the not-clause of the single-value phrase
  \<^verbatim>\<open>a\<close> does not equal the not-clause of the list phrase \<^verbatim>\<open>a\<close>, and the second
  equals the first.
\<close>

theorem NotSearchClause_equals_contains_witness:
  "NotSearchClause_equals (Some (DefaultPhrase (new_DefaultPhrase ''a'' ''name:a'' [''name''])))
      (NotSearchClause (Some (ListPhrase (new_ListPhrase ''a'' ''name:a'' [''name'']))))
     = Inr False
   \<and> NotSearchClause_equals (Some (ListPhrase (new_ListPhrase ''a'' ''name:a'' [''name''])))
      (NotSearchClause (Some (DefaultPhrase (new_DefaultPhrase ''a'' ''name:a'' [''name'']))))
     = Inr True
   \<and> NotSearchClause_equals (Some (DefaultPhrase (new_DefaultPhrase ''a'' ''name:a'' [''name''])))
      (AndSearchClause [DefaultPhrase (new_DefaultPhrase ''a'' ''name:a'' [''name''])])
     = Inr False"
  using NotSearchClause_equals_contains
      [of "Some (DefaultPhrase (new_DefaultPhrase ''a'' ''name:a'' [''name'']))"
          "[DefaultPhrase (new_DefaultPhrase ''a'' ''name:a'' [''name''])]" "None"
          "DefaultPhrase (new_DefaultPhrase ''a'' ''name:a'' [''name''])"
          "ListPhrase (new_ListPhrase ''a'' ''name:a'' [''name''])"]
    NotSearchClause_equals_contains
      [of "None" "[]" "None"
          "ListPhrase (new_ListPhrase ''a'' ''name:a'' [''name''])"
          "DefaultPhrase (new_DefaultPhrase ''a'' ''name:a'' [''name''])"]
  by (simp add: NotSearchClause_equals_def NotSearchClause_contains_def eval_phrase eval_strings)

text \<open>
  Claim C5, at the input where the code leaves it. With \<open>a\<close> a single-value phrase
  whose phrase string is empty, the and-clause of \<open>a\<close> and \<open>b\<close> does not equal the
  and-clause of \<open>b\<close> and \<open>a\<close>: no phrase of the other clause equals \<open>a\<close>, \<open>a\<close>
  itself included.
\<close>

theorem AndSearchClause_equals_swapped_empty_phrase:
  "AndSearchClause_equals
     [DefaultPhrase (new_DefaultPhrase '''' ''name:'' [''name'']),
      DefaultPhrase (new_DefaultPhrase ''lung'' ''type:lung'' [''type''])]
     (AndSearchClause
        [DefaultPhrase (new_DefaultPhrase ''lung'' ''type:lung'' [''type'']),
         DefaultPhrase (new_DefaultPhrase '''' ''name:'' [''name''])]) = False"
  by (simp add: AndSearchClause_equals_def AndSearchClause_contains_def eval_phrase)

text \<open>
  What holds of claim C5 on the code. \<^verbatim>\<open>equals\<close> of an and-clause is false for a
  not-clause; for an and-clause it is true exactly when every phrase of each clause is
  contained in the other; it gives the same answer with the two clauses exchanged; it
  depends only on the sets of phrases, not on their order or number; and the clause of
  \<open>a\<close> and \<open>b\<close> equals the clause of \<open>b\<close> and \<open>a\<close> whenever \<open>a\<close> and \<open>b\<close> each
  equal themselves.
\<close>

theorem AndSearchClause_equals_mutual_containment:
  "\<not> AndSearchClause_equals ps (NotSearchClause n)
   \<and> (AndSearchClause_equals ps (AndSearchClause qs) \<longleftrightarrow>
        (\<forall>p\<in>set ps. AndSearchClause_contains qs (MatchPhrase p)) \<and>
        (\<forall>q\<in>set qs. AndSearchClause_contains ps (MatchPhrase q)))
   \<and> AndSearchClause_equals ps (AndSearchClause qs)
        = AndSearchClause_equals qs (AndSearchClause ps)
   \<and> (set ps = set ps' \<and> set qs = set qs' \<longrightarrow>
        AndSearchClause_equals ps (AndSearchClause qs)
          = AndSearchClause_equals ps' (AndSearchClause qs'))
   \<and> (Phrase_equals a (Some a) \<and> Phrase_equals b (Some b) \<longrightarrow>
        AndSearchClause_equals [a, b] (AndSearchClause [b, a]))"
proof (intro conjI)
  show "\<not> AndSearchClause_equals ps (NotSearchClause n)"
    by (simp add: AndSearchClause_equals_def)
  show "AndSearchClause_equals ps (AndSearchClause qs) \<longleftrightarrow>
        (\<forall>p\<in>set ps. AndSearchClause_contains qs (MatchPhrase p)) \<and>
        (\<forall>q\<in>set qs. AndSearchClause_contains ps (MatchPhrase q))"
    by (rule AndSearchClause_equals_iff)
  show "AndSearchClause_equals ps (AndSearchClause qs)
          = AndSearchClause_equals qs (AndSearchClause ps)"
    by (auto simp: AndSearchClause_equals_iff)
  show "set ps = set ps' \<and> set qs = set qs' \<longrightarrow>
        AndSearchClause_equals ps (AndSearchClause qs)
          = AndSearchClause_equals ps' (AndSearchClause qs')"
    by (simp add: AndSearchClause_equals_iff AndSearchClause_contains_phrase)
  show "Phrase_equals a (Some a) \<and> Phrase_equals b (Some b) \<longrightarrow>
        AndSearchClause_equals [a, b] (AndSearchClause [b, a])"
    by (auto simp: AndSearchClause_equals_iff AndSearchClause_contains_phrase)
qed

theorem AndSearchClause_equals_mutual_containment_witness:
  "AndSearchClause_equals
     [DefaultPhrase (new_DefaultPhrase ''lung'' ''type:lung'' [''type'']),
      ListPhrase (new_ListPhrase ''a,b'' ''tag:a,b'' [''tag''])]
     (AndSearchClause
        [ListPhrase (new_ListPhrase ''a,b'' ''tag:a,b'' [''tag'']),
         DefaultPhrase (new_DefaultPhrase ''lung'' ''type:lung'' [''type''])])"
proof -
  have a: "Phrase_equals (DefaultPhrase (new_DefaultPhrase ''lung'' ''type:lung'' [''type'']))
             (Some (DefaultPhrase (new_DefaultPhrase ''lung'' ''type:lung'' [''type''])))"
    by (simp add: eval_phrase)
  have b: "Phrase_equals (ListPhrase (new_ListPhrase ''a,b'' ''tag:a,b'' [''tag'']))
             (Some (ListPhrase (new_ListPhrase ''a,b'' ''tag:a,b'' [''tag''])))"
    by (simp add: eval_phrase)
  show ?thesis
    using a b AndSearchClause_equals_mutual_containment
      [of "[]" "None" "[]" "[]" "[]"
          "DefaultPhrase (new_DefaultPhrase ''lung'' ''type:lung'' [''type''])"
          "ListPhrase (new_ListPhrase ''a,b'' ''tag:a,b'' [''tag''])"]
    by blast
qed

section \<open>The mutation assessor formatter\<close>

lemmas eval_formatter = getDisplayValue_def getScoreClassName_def sortPriority_def
  getTextValue_def getMapEntry_def getData_def empty_maData_def Object_get_def MA_SCORE_MAP_def
  Object_prototype_properties_def String_toLowerCase_def toLowerCaseChar_def
  upperCaseLetters_def lowerCaseLetters_def

lemma Object_get_h:
  "Object_get MA_SCORE_MAP ''h''
     = Own \<lparr>label = ''High'', className = ''oma-high'', priority = 4\<rparr>"
  by (simp add: Object_get_def MA_SCORE_MAP_def)

lemma Object_get_unknown:
  "k \<notin> set [''h'', ''m'', ''l'', ''n'', ''na''] \<Longrightarrow> k \<notin> set Object_prototype_properties \<Longrightarrow>
     Object_get MA_SCORE_MAP k = Undefined"
  by (simp add: Object_get_def MA_SCORE_MAP_def)

text \<open>
  The keys are lower-cased before the read, so the inherited names that a read can
  reach are the two without a capital letter.
\<close>

lemma inherited_lowercase:
  "String_toLowerCase i \<in> set Object_prototype_properties \<longleftrightarrow>
     String_toLowerCase i = ''constructor'' \<or> String_toLowerCase i = ''__proto__''"
proof -
  have no_upper:
    "\<And>u. u \<in> set ''ABCDEFGHIJKLMNOPQRSTUVWXYZ'' \<Longrightarrow> u \<notin> set (String_toLowerCase i)"
    using toLowerCaseChar_not_upper by (auto simp: String_toLowerCase_def)
  show ?thesis
    using no_upper [of "CHR ''O''"] no_upper [of "CHR ''P''"] no_upper [of "CHR ''E''"]
      no_upper [of "CHR ''L''"] no_upper [of "CHR ''S''"] no_upper [of "CHR ''G''"]
    by (auto simp: Object_prototype_properties_def)
qed

text \<open>
  Claim C10, at the input where the code leaves it. The impact code \<^verbatim>\<open>constructor\<close>
  is none of the five codes of the table, yet the read \<^verbatim>\<open>MA_SCORE_MAP[...]\<close> finds
  the inherited property of that name, which is truthy: the display value is its
  \<^verbatim>\<open>label\<close> and the class name its \<^verbatim>\<open>className\<close>, both \<^verbatim>\<open>undefined\<close>, and neither
  the raw text \<^verbatim>\<open>constructor\<close> nor the empty string.
\<close>

theorem getDisplayValue_inherited_key:
  "getDisplayValue
     \<lparr>columnData = Some \<lparr>impact = Some ''constructor'', score = None :: int option,
                          pdb = None, msa = None, xVar = None\<rparr>, rowData = None\<rparr> = None
   \<and> getScoreClassName
     \<lparr>columnData = Some \<lparr>impact = Some ''constructor'', score = None :: int option,
                          pdb = None, msa = None, xVar = None\<rparr>, rowData = None\<rparr> = None
   \<and> getTextValue
     \<lparr>columnData = Some \<lparr>impact = Some ''constructor'', score = None :: int option,
                          pdb = None, msa = None, xVar = None\<rparr>, rowData = None\<rparr>
     = ''constructor''"
  by (simp add: eval_formatter)

text \<open>
  What holds of claim C10 on the code. An impact code that is \<^verbatim>\<open>h\<close> in lower case
  gives the label \<^verbatim>\<open>High\<close>, the class name \<^verbatim>\<open>oma-high\<close> and the priority 4. An
  absent or empty impact gives the empty string for both the display value and the
  class name. Any other impact code whose lower-case form is none of the table's five
  codes and not a name inherited from \<^verbatim>\<open>Object.prototype\<close> gives the raw impact text
  as the display value and the empty string as the class name.
\<close>

theorem formatter_known_and_unknown_codes:
  "(impact (getData data) = Some i \<and> String_toLowerCase i = ''h'' \<longrightarrow>
      getDisplayValue data = Some ''High'' \<and> getScoreClassName data = Some ''oma-high''
      \<and> sortPriority data = Some 4)
   \<and> (impact (getData data) = None \<or> impact (getData data) = Some [] \<longrightarrow>
      getDisplayValue data = Some [] \<and> getScoreClassName data = Some [])
   \<and> (impact (getData data) = Some i \<and> i \<noteq> []
       \<and> String_toLowerCase i \<notin> set [''h'', ''m'', ''l'', ''n'', ''na'']
       \<and> String_toLowerCase i \<notin> set Object_prototype_properties \<longrightarrow>
      getDisplayValue data = Some i \<and> getScoreClassName data = Some [])"
proof (intro conjI impI)
  assume a: "impact (getData data) = Some i \<and> String_toLowerCase i = ''h''"
  then have "i \<noteq> []" using String_toLowerCase_Nil [of i] by auto
  then have e: "getMapEntry data
                  = Own \<lparr>label = ''High'', className = ''oma-high'', priority = 4\<rparr>"
    using a by (simp add: getMapEntry_def Object_get_h)
  show "getDisplayValue data = Some ''High''" by (simp add: getDisplayValue_def e)
  show "getScoreClassName data = Some ''oma-high''" by (simp add: getScoreClassName_def e)
  show "sortPriority data = Some 4" by (simp add: sortPriority_def e)
next
  assume a: "impact (getData data) = None \<or> impact (getData data) = Some []"
  then have e: "getMapEntry data = Undefined" by (auto simp: getMapEntry_def)
  show "getDisplayValue data = Some []"
    using a by (auto simp: getDisplayValue_def e getTextValue_def)
  show "getScoreClassName data = Some []" by (simp add: getScoreClassName_def e)
next
  assume a: "impact (getData data) = Some i \<and> i \<noteq> []
       \<and> String_toLowerCase i \<notin> set [''h'', ''m'', ''l'', ''n'', ''na'']
       \<and> String_toLowerCase i \<notin> set Object_prototype_properties"
  then have e: "getMapEntry data = Undefined"
    using Object_get_unknown [of "String_toLowerCase i"] by (simp add: getMapEntry_def)
  show "getDisplayValue data = Some i"
    using a by (simp add: getDisplayValue_def e getTextValue_def)
  show "getScoreClassName data = Some []" by (simp add: getScoreClassName_def e)
qed

text \<open>
  A row whose first mutation has the impact \<^verbatim>\<open>H\<close> shows \<^verbatim>\<open>High\<close> with the class
  \<^verbatim>\<open>oma-high\<close> and the priority 4; a row with no mutation shows the empty string; a
  row with the impact \<^verbatim>\<open>xyz\<close> shows \<^verbatim>\<open>xyz\<close> with the empty class name.
\<close>

theorem formatter_known_and_unknown_codes_witness:
  "getDisplayValue
     \<lparr>columnData = None,
      rowData = Some [\<lparr>functionalImpactScore = Some ''H'', fisValue = Some (3 :: int),
                       linkPdb = None, linkMsa = None, linkXvar = None\<rparr>]\<rparr> = Some ''High''
   \<and> getScoreClassName
     \<lparr>columnData = None,
      rowData = Some [\<lparr>functionalImpactScore = Some ''H'', fisValue = Some (3 :: int),
                       linkPdb = None, linkMsa = None, linkXvar = None\<rparr>]\<rparr> = Some ''oma-high''
   \<and> sortPriority
     \<lparr>columnData = None,
      rowData = Some [\<lparr>functionalImpactScore = Some ''H'', fisValue = Some (3 :: int),
                       linkPdb = None, linkMsa = None, linkXvar = None\<rparr>]\<rparr> = Some 4
   \<and> getDisplayValue \<lparr>columnData = None, rowData = Some ([] :: int Mutation list)\<rparr> = Some []
   \<and> getDisplayValue
     \<lparr>columnData = Some \<lparr>impact = Some ''xyz'', score = None :: int option,
                          pdb = None, msa = None, xVar = None\<rparr>, rowData = None\<rparr> = Some ''xyz''
   \<and> getScoreClassName
     \<lparr>columnData = Some \<lparr>impact = Some ''xyz'', score = None :: int option,
                          pdb = None, msa = None, xVar = None\<rparr>, rowData = None\<rparr> = Some []"
  using formatter_known_and_unknown_codes
      [of "\<lparr>columnData = None,
            rowData = Some [\<lparr>functionalImpactScore = Some ''H'', fisValue = Some (3 :: int),
                             linkPdb = None, linkMsa = None, linkXvar = None\<rparr>]\<rparr>" "''H''"]
  by (simp add: eval_formatter)

end
